theory Spec2Isabelle
  imports Main
begin

section \<open>Conventions of the embedding\<close>

text \<open>
  The three components (MetalLB, Grafana, NginxIngress) each build one chart values
  document from their inputs. The embedding follows the TypeScript:
  \<^item> an interface or an object literal is a record; a property that is optional, or whose
    value may be \<^verbatim>\<open>undefined\<close>, has an option type, and \<^verbatim>\<open>undefined\<close>/\<^verbatim>\<open>null\<close> is \<open>None\<close>:
    a key of the values document is absent when it is \<open>None\<close>, and present, possibly with an
    empty list or map, when it is \<open>Some\<close>;
  \<^item> a \<^verbatim>\<open>Record<string, string>\<close> is a map \<open>string \<rightharpoonup> string\<close>;
  \<^item> a \<^verbatim>\<open>pulumi.Input<T>\<close> that the code only passes on to the chart, or reads through
    \<^verbatim>\<open>pulumi.interpolate\<close> or \<^verbatim>\<open>pulumi.output(...).apply\<close>, is taken at its resolved value of
    type T; one that the code inspects as it is given (the replica count, compared with 1;
    the namespace of NginxIngress, tested for truthiness) keeps its three forms, a plain
    value, a Promise and an Output;
  \<^item> \<^verbatim>\<open>a ?? b\<close> is a case distinction on the option, \<^verbatim>\<open>!a\<close> on an object or array is
    \<open>a = None\<close> (every object and every array, also the empty one, is truthy);
  \<^item> numbers that count or number things (replicas, ports, sizes) are integers; JavaScript
    holds an integer exactly, and renders it in decimal, up to magnitude \<open>2\<^sup>5\<^sup>3 - 1\<close>.
  Field names are the source's, with a prefix where two object shapes share a key.
\<close>

section \<open>MetalLB\<close>

datatype protocol = layer2

record AddressPool =
  pool_name :: string
  pool_protocol :: protocol
  pool_addresses :: "string list"

record MetalLBInputs =
  mlb_namespace :: "string option"
  mlb_version :: "string option"
  addressPools :: "AddressPool list option"

text \<open>One entry of the emitted \<^verbatim>\<open>address-pools\<close> list.\<close>

record AddressPoolValues =
  apv_name :: string
  apv_protocol :: protocol
  apv_addresses :: "string list"
  avoid_buggy_ips :: bool

record ConfigInline =
  address_pools :: "AddressPoolValues list option"

record PrometheusValues =
  scrapeAnnotations :: bool

record MetalLBValues =
  configInline :: ConfigInline
  prometheus :: PrometheusValues

record HelmMeta =
  chart :: string
  meta_version :: string
  repo :: string

record MetalLBChart =
  mlb_release :: string
  mlb_chart_namespace :: "string option"
  mlb_meta :: HelmMeta
  mlb_values :: MetalLBValues

text \<open>
  \<^verbatim>\<open>props?.addressPools?.map((pool) => ({...}))\<close>: the optional chain yields
  \<^verbatim>\<open>undefined\<close> when \<^verbatim>\<open>props\<close> or \<^verbatim>\<open>addressPools\<close> is missing, and maps the list otherwise.
\<close>

definition addressPoolValues :: "AddressPool \<Rightarrow> AddressPoolValues" where
  "addressPoolValues pool =
     \<lparr>apv_name = pool_name pool,
      apv_protocol = pool_protocol pool,
      apv_addresses = pool_addresses pool,
      avoid_buggy_ips = True\<rparr>"

definition MetalLB :: "string \<Rightarrow> MetalLBInputs option \<Rightarrow> MetalLBChart" where
  "MetalLB name props =
     \<lparr>mlb_release = name @ ''-metallb'',
      mlb_chart_namespace = Option.bind props mlb_namespace,
      mlb_meta =
        \<lparr>chart = ''metallb'',
         meta_version = (case Option.bind props mlb_version of Some v \<Rightarrow> v | None \<Rightarrow> ''0.12.0''),
         repo = ''https://kubernetes-charts.storage.googleapis.com''\<rparr>,
      mlb_values =
        \<lparr>configInline =
           \<lparr>address_pools = map_option (map addressPoolValues) (Option.bind props addressPools)\<rparr>,
         prometheus = \<lparr>scrapeAnnotations = True\<rparr>\<rparr>\<rparr>"


section \<open>JavaScript primitives used by the components\<close>

text \<open>
  \<^verbatim>\<open>pulumi.Input<T>\<close> is \<^verbatim>\<open>T | Promise<T> | Output<T>\<close>.
\<close>

datatype 'a Input = Plain 'a | Promise 'a | Output 'a

text \<open>
  \<^verbatim>\<open>x <= 1\<close> on an input: a plain number is compared; a Promise or an Output is an object,
  which the comparison turns into a number through its \<^verbatim>\<open>toString()\<close>
  (\<^verbatim>\<open>"[object Promise]"\<close>, and the notice that \<^verbatim>\<open>toString\<close> is not supported on an Output):
  neither string is a numeral, the number is \<^verbatim>\<open>NaN\<close>, and a comparison with \<^verbatim>\<open>NaN\<close> is false.
\<close>

definition le_one :: "int Input \<Rightarrow> bool" where
  "le_one x = (case x of Plain n \<Rightarrow> n \<le> 1 | Promise _ \<Rightarrow> False | Output _ \<Rightarrow> False)"

text \<open>
  The truthiness of a string input: a plain string is truthy unless empty, an object always.
\<close>

definition truthy :: "string Input \<Rightarrow> bool" where
  "truthy x = (case x of Plain s \<Rightarrow> s \<noteq> [] | Promise _ \<Rightarrow> True | Output _ \<Rightarrow> True)"

text \<open>
  The safe integers (\<^verbatim>\<open>Number.isSafeInteger\<close>): a JavaScript number holds each of them
  exactly, and a template literal renders it in decimal, which is what \<open>toString\<close> below
  computes. (Beyond them a number is rounded, and from \<open>10\<^sup>2\<^sup>1\<close> on it is rendered with an
  exponent.) A template literal renders \<^verbatim>\<open>undefined\<close> as the word itself.
\<close>

definition safe_integer :: "int \<Rightarrow> bool" where
  "safe_integer n = (\<bar>n\<bar> \<le> 9007199254740991)"

fun digits :: "nat \<Rightarrow> string" where
  "digits n = (if n < 10 then [''0123456789'' ! n]
               else digits (n div 10) @ [''0123456789'' ! (n mod 10)])"

declare digits.simps [simp del]

definition toString :: "int \<Rightarrow> string" where
  "toString i = (if i < 0 then CHR ''-'' # digits (nat (- i)) else digits (nat i))"

definition template_string :: "string option \<Rightarrow> string" where
  "template_string v = (case v of None \<Rightarrow> ''undefined'' | Some s \<Rightarrow> s)"

definition template_number :: "int option \<Rightarrow> string" where
  "template_number v = (case v of None \<Rightarrow> ''undefined'' | Some n \<Rightarrow> toString n)"

text \<open>\<^verbatim>\<open>xs[0]\<close>: the first element, \<^verbatim>\<open>undefined\<close> on the empty array.\<close>

definition index0 :: "'a list \<Rightarrow> 'a option" where
  "index0 xs = (case xs of [] \<Rightarrow> None | x # _ \<Rightarrow> Some x)"

text \<open>An object of shape \<^verbatim>\<open>{ enabled: boolean }\<close>.\<close>

record EnabledBlock =
  enabled :: bool

section \<open>NginxIngress\<close>

record L4ServiceBackend =
  l4_namespace :: string
  serviceName :: string
  servicePort :: int

record NginxIngressDeploymentMode =
  replicas :: "int Input option"
  loadBalancerIP :: "string option"
  serviceAnnotations :: "(string \<rightharpoonup> string) option"

text \<open>The union discriminated by \<^verbatim>\<open>kind\<close>; the DaemonSet mode has no other field.\<close>

datatype NginxIngressMode = Deployment NginxIngressDeploymentMode | DaemonSet

text \<open>
  A \<^verbatim>\<open>Record<number, L4ServiceBackend>\<close> is given by its \<^verbatim>\<open>Object.entries\<close>, in their order;
  the keys of an object are distinct. A numeric key is stored under its decimal string and
  \<^verbatim>\<open>Number(key)\<close> reads the number back, so an entry is a pair of the number and the backend.
\<close>

type_synonym l4_table = "(int \<times> L4ServiceBackend) list"

record NginxIngressInputs =
  ngx_namespace :: "string Input option"
  ngx_version :: "string option"
  mode :: "NginxIngressMode option"
  config :: "(string \<rightharpoonup> string) option"
  tcpServices :: "l4_table option"
  udpServices :: "l4_table option"
  maxmindLicenseKey :: "string option"

record MatchExpression =
  me_key :: string
  me_operator :: string
  me_values :: "string list"

record LabelSelector =
  matchExpressions :: "MatchExpression list"

record PodAffinityTerm =
  topologyKey :: string
  labelSelector :: LabelSelector

record WeightedPodAffinityTerm =
  weight :: int
  podAffinityTerm :: PodAffinityTerm

record PodAntiAffinity =
  preferredDuringSchedulingIgnoredDuringExecution :: "WeightedPodAffinityTerm list"

record Affinity =
  podAntiAffinity :: PodAntiAffinity

text \<open>
  The \<^verbatim>\<open>service\<close> object has the keys of the Deployment literal or the one key of the
  DaemonSet literal; a key the literal does not have is \<open>None\<close>.
\<close>

record ControllerService =
  svc_enabled :: "bool option"
  svc_type :: "string option"
  svc_loadBalancerIP :: "string option"
  externalTrafficPolicy :: "string option"
  svc_annotations :: "(string \<rightharpoonup> string) option"

record DaemonsetValues =
  useHostPort :: bool

text \<open>What \<^verbatim>\<open>controllerValues\<close> returns: the keys of either mode.\<close>

record ModeValues =
  kind :: string
  replicaCount :: "int Input option"
  reportNodeInternalIp :: "bool option"
  service :: ControllerService
  daemonset :: "DaemonsetValues option"
  affinity :: "Affinity option"

record MetricsService =
  ms_type :: string
  ms_servicePort :: int
  ms_annotations :: "string \<rightharpoonup> string"

record Metrics =
  metrics_enabled :: bool
  metrics_service :: MetricsService

text \<open>The \<^verbatim>\<open>controller\<close> block: the mode's keys and the keys merged over them.\<close>

record Controller = ModeValues +
  ctl_config :: "(string \<rightharpoonup> string) option"
  labels :: "string \<rightharpoonup> string"
  podLabels :: "string \<rightharpoonup> string"
  admissionWebhooks :: EnabledBlock
  metrics :: Metrics
  ctl_maxmindLicenseKey :: "string option"

record Rbac =
  create :: bool

record NginxIngressValues =
  fullnameOverride :: string
  rbac :: Rbac
  defaultBackend :: EnabledBlock
  controller :: Controller
  tcp :: "int \<rightharpoonup> string"
  udp :: "int \<rightharpoonup> string"

record NginxIngressChart =
  ingressClass :: string
  ngx_meta :: HelmMeta
  ngx_release :: string
  ngx_chart_namespace :: "string Input option"
  ngx_values :: NginxIngressValues
  ingressService :: "string Input option \<times> string"

definition daemonSetValues :: ModeValues where
  "daemonSetValues =
     \<lparr>kind = ''DaemonSet'',
      replicaCount = None,
      reportNodeInternalIp = Some True,
      service = \<lparr>svc_enabled = Some False, svc_type = None, svc_loadBalancerIP = None,
                 externalTrafficPolicy = None, svc_annotations = None\<rparr>,
      daemonset = Some \<lparr>useHostPort = True\<rparr>,
      affinity = None\<rparr>"

definition deploymentValues :: "NginxIngressDeploymentMode \<Rightarrow> ModeValues" where
  "deploymentValues props =
     (let replicas = (case replicas props of Some r \<Rightarrow> r | None \<Rightarrow> Plain 1) in
      \<lparr>kind = ''Deployment'',
       replicaCount = Some replicas,
       reportNodeInternalIp = None,
       service = \<lparr>svc_enabled = None, svc_type = Some ''LoadBalancer'',
                  svc_loadBalancerIP = loadBalancerIP props,
                  externalTrafficPolicy = Some ''Local'',
                  svc_annotations = serviceAnnotations props\<rparr>,
       daemonset = None,
       affinity =
         (if le_one replicas then None
          else Some
            \<lparr>podAntiAffinity =
               \<lparr>preferredDuringSchedulingIgnoredDuringExecution =
                  [\<lparr>weight = 1,
                    podAffinityTerm =
                      \<lparr>topologyKey = ''kubernetes.io/hostname'',
                       labelSelector =
                         \<lparr>matchExpressions =
                            [\<lparr>me_key = ''app'', me_operator = ''In'',
                              me_values = [''nginx-ingress'']\<rparr>,
                             \<lparr>me_key = ''component'', me_operator = ''In'',
                              me_values = [''controller'']\<rparr>]\<rparr>\<rparr>\<rparr>]\<rparr>\<rparr>)\<rparr>)"

text \<open>
  \<^verbatim>\<open>switch (props?.mode?.kind)\<close>: the default branch is taken when there is no mode
  (or no props), with the literal \<^verbatim>\<open>{ kind: 'Deployment', replicas: 1 }\<close>.
\<close>

definition controllerValues :: "NginxIngressInputs option \<Rightarrow> ModeValues" where
  "controllerValues props =
     (case Option.bind props mode of
        Some DaemonSet \<Rightarrow> daemonSetValues
      | Some (Deployment m) \<Rightarrow> deploymentValues m
      | None \<Rightarrow> deploymentValues
          \<lparr>replicas = Some (Plain 1), loadBalancerIP = None, serviceAnnotations = None\<rparr>)"

text \<open>
  The loop of \<^verbatim>\<open>l4Services\<close> over the entries: each assignment
  \<^verbatim>\<open>backends[Number(key)] = ...\<close> sets or overwrites one key.
\<close>

fun l4Services_loop :: "l4_table \<Rightarrow> (int \<rightharpoonup> string) \<Rightarrow> (int \<rightharpoonup> string)" where
  "l4Services_loop [] backends = backends"
| "l4Services_loop ((key, val) # rest) backends =
     l4Services_loop rest
       (backends(key \<mapsto> l4_namespace val @ ''/'' @ serviceName val @ '':'' @ toString (servicePort val)))"

definition l4Services :: "l4_table \<Rightarrow> (int \<rightharpoonup> string)" where
  "l4Services props = l4Services_loop props Map.empty"

text \<open>
  The constructor. \<^verbatim>\<open>merge({}, this.controllerValues(props), {...})\<close> adds the keys of the
  second object to those of the mode: the two key sets are disjoint, so no key of the mode
  is overwritten. The service reference is looked up by the name of the service, and in
  the namespace \<^verbatim>\<open>props.namespace.toString()\<close> when the namespace is truthy: the first
  component of \<open>ingressService\<close> is the namespace input of that call.
\<close>

definition NginxIngress :: "string \<Rightarrow> NginxIngressInputs option \<Rightarrow> NginxIngressChart" where
  "NginxIngress name props =
     (let mv = controllerValues props in
      \<lparr>ingressClass = ''nginx'',
       ngx_meta =
         \<lparr>chart = ''ingress-nginx'',
          meta_version = (case Option.bind props ngx_version of Some v \<Rightarrow> v | None \<Rightarrow> ''3.9.0''),
          repo = ''https://kubernetes.github.io/ingress-nginx''\<rparr>,
       ngx_release = name,
       ngx_chart_namespace = Option.bind props ngx_namespace,
       ngx_values =
         \<lparr>fullnameOverride = name,
          rbac = \<lparr>create = True\<rparr>,
          defaultBackend = \<lparr>enabled = False\<rparr>,
          controller =
            \<lparr>kind = kind mv,
             replicaCount = replicaCount mv,
             reportNodeInternalIp = reportNodeInternalIp mv,
             service = service mv,
             daemonset = daemonset mv,
             affinity = affinity mv,
             ctl_config = Option.bind props config,
             labels = [''app'' \<mapsto> ''nginx-ingress''],
             podLabels = [''app'' \<mapsto> ''nginx-ingress''],
             admissionWebhooks = \<lparr>enabled = False\<rparr>,
             metrics =
               \<lparr>metrics_enabled = True,
                metrics_service =
                  \<lparr>ms_type = ''ClusterIP'',
                   ms_servicePort = 10254,
                   ms_annotations = [''prometheus.io/scrape'' \<mapsto> ''true'',
                                     ''prometheus.io/port'' \<mapsto> ''10254'']\<rparr>\<rparr>,
             ctl_maxmindLicenseKey = Option.bind props maxmindLicenseKey\<rparr>,
          tcp = l4Services (case Option.bind props tcpServices of Some t \<Rightarrow> t | None \<Rightarrow> []),
          udp = l4Services (case Option.bind props udpServices of Some t \<Rightarrow> t | None \<Rightarrow> [])\<rparr>,
       ingressService =
         (case Option.bind props ngx_namespace of
            Some ns \<Rightarrow> if truthy ns then (Some ns, name @ ''-controller'')
                       else (None, name @ ''-controller'')
          | None \<Rightarrow> (None, name @ ''-controller''))\<rparr>)"

section \<open>Grafana\<close>

text \<open>
  Modelled from the spec: the interfaces \<^verbatim>\<open>Ingress\<close> and \<^verbatim>\<open>Persistence\<close> of the package
  \<^verbatim>\<open>@kloudlib/abstractions\<close>, which the component imports and whose declaration is not among
  the source files. The spec's IngressSpec has an enabled flag, an ingress class name, a
  TLS flag, the hostnames and a free-form annotation map; its PersistenceSpec an enabled
  flag, a size in gibibytes and a storage-class name. Every field may be missing. The
  hostnames are a list: the component reads \<^verbatim>\<open>hosts[0]\<close>.
\<close>

record Ingress =
  ing_enabled :: "bool option"
  ing_class :: "string option"
  ing_tls :: "bool option"
  ing_hosts :: "string list option"
  ing_annotations :: "(string \<rightharpoonup> string) option"

record Persistence =
  pers_enabled :: "bool option"
  sizeGB :: "int option"
  storageClass :: "string option"

text \<open>
  A dashboard is a name and one of four sources; \<^verbatim>\<open>const { name, ...rest } = curr\<close> splits
  it into the two.
\<close>

datatype DashboardSource =
    Json string
  | File string
  | Gnet int "int option" "string option"
  | Url string "bool option"

record GrafanaDashboard =
  dashboard_name :: string
  dashboard_rest :: DashboardSource

datatype DataSourceType = prometheus | loki

record GrafanaDataSource =
  ds_name :: string
  ds_type :: DataSourceType
  ds_url :: string

record GrafanaInputs =
  gf_namespace :: "string option"
  gf_version :: "string option"
  dashboards :: "GrafanaDashboard list option"
  datasources :: "GrafanaDataSource list option"
  ingress :: "Ingress option"
  persistence :: "Persistence option"

text \<open>
  The resource \<^verbatim>\<open>random.RandomString\<close> belongs to the provider \<^verbatim>\<open>@pulumi/random\<close>. The
  component is given the provider as a function from the parent's name, the resource's name
  and the resource's arguments to the resource's \<^verbatim>\<open>result\<close>: the engine keeps one result
  per resource identity.
\<close>

record RandomStringArgs =
  rs_length :: nat
  special :: bool

type_synonym secret_generator = "string \<Rightarrow> string \<Rightarrow> RandomStringArgs \<Rightarrow> string"

definition alphanumeric :: "char \<Rightarrow> bool" where
  "alphanumeric c =
     (c \<in> set (''abcdefghijklmnopqrstuvwxyz'' @ ''ABCDEFGHIJKLMNOPQRSTUVWXYZ'' @ ''0123456789''))"

record IngressTls =
  tls_hosts :: "string list option"
  secretName :: string

record IngressValues =
  iv_enabled :: bool
  iv_annotations :: "(string \<rightharpoonup> string) option"
  iv_hosts :: "string list option"
  iv_tls :: "IngressTls list option"

record DeploymentStrategy =
  strategy_type :: string

record PersistenceValues =
  pv_enabled :: "bool option"
  pv_size :: "string option"
  pv_storageClass :: "string option"

record ServerIni =
  domain :: "string option"
  root_url :: string

record AuthAnonymous =
  anon_enabled :: string
  org_name :: string
  org_role :: string

record AuthBasic =
  basic_enabled :: string

record GrafanaIni =
  server :: "ServerIni option"
  auth_anonymous :: AuthAnonymous
  auth_basic :: AuthBasic

record DataSourceValues =
  dsv_name :: string
  dsv_type :: DataSourceType
  dsv_url :: string
  access :: string
  basicAuth :: bool
  dsv_editable :: bool

record DatasourcesYaml =
  dsy_apiVersion :: int
  dsy_datasources :: "DataSourceValues list"

record DatasourcesValues =
  datasources_yaml :: DatasourcesYaml

record DashboardsValues =
  dashboards_default :: "string \<rightharpoonup> DashboardSource"

record ProviderOptions =
  path :: string

record DashboardProvider =
  prov_name :: string
  orgId :: int
  folder :: string
  prov_type :: string
  disableDeletion :: bool
  prov_editable :: bool
  options :: ProviderOptions

record DashboardProvidersYaml =
  dpy_apiVersion :: int
  providers :: "DashboardProvider list"

record DashboardProvidersValues =
  dashboardproviders_yaml :: DashboardProvidersYaml

record GrafanaValues =
  adminUser :: string
  adminPassword :: string
  gv_ingress :: IngressValues
  deploymentStrategy :: DeploymentStrategy
  gv_persistence :: PersistenceValues
  testFramework :: EnabledBlock
  grafana_ini :: GrafanaIni
  gv_datasources :: DatasourcesValues
  gv_dashboards :: "DashboardsValues option"
  dashboardProviders :: "DashboardProvidersValues option"

record GrafanaChart =
  out_ingress :: "Ingress option"
  out_persistence :: "Persistence option"
  adminUsername :: string
  out_adminPassword :: string
  gf_meta :: HelmMeta
  gf_release :: string
  gf_chart_namespace :: "string option"
  gf_values :: GrafanaValues

text \<open>
  The \<^verbatim>\<open>ingress\<close> block. The annotations are an object literal: the two computed keys, then
  the spread \<^verbatim>\<open>...props?.ingress.annotations\<close>, which sets each key of the caller's map
  (and nothing when the map is missing).
\<close>

definition ingressValues :: "string \<Rightarrow> Ingress option \<Rightarrow> IngressValues" where
  "ingressValues name ing =
     (case ing of
        None \<Rightarrow> \<lparr>iv_enabled = False, iv_annotations = None, iv_hosts = None, iv_tls = None\<rparr>
      | Some i \<Rightarrow>
          \<lparr>iv_enabled = (case ing_enabled i of Some e \<Rightarrow> e | None \<Rightarrow> True),
           iv_annotations = Some
             ([''kubernetes.io/ingress.class'' \<mapsto>
                 (case ing_class i of Some c \<Rightarrow> c | None \<Rightarrow> ''nginx''),
               ''kubernetes.io/tls-acme'' \<mapsto>
                 (if ing_tls i = Some False then ''false'' else ''true'')]
              ++ (case ing_annotations i of Some a \<Rightarrow> a | None \<Rightarrow> Map.empty)),
           iv_hosts = ing_hosts i,
           iv_tls = Some [\<lparr>tls_hosts = ing_hosts i, secretName = ''tls-grafana-'' @ name\<rparr>]\<rparr>)"

definition persistenceValues :: "Persistence option \<Rightarrow> PersistenceValues" where
  "persistenceValues pers =
     (case pers of
        None \<Rightarrow> \<lparr>pv_enabled = Some False, pv_size = None, pv_storageClass = None\<rparr>
      | Some q \<Rightarrow>
          \<lparr>pv_enabled = pers_enabled q,
           pv_size = Some (template_number (sizeGB q) @ ''Gi''),
           pv_storageClass = storageClass q\<rparr>)"

text \<open>
  The \<^verbatim>\<open>server\<close> key of \<^verbatim>\<open>grafana.ini\<close>: \<^verbatim>\<open>!hosts\<close> holds for a missing list only, and
  the two fields read \<^verbatim>\<open>hosts[0]\<close>, the second inside a template literal.
\<close>

definition serverIni :: "string list option \<Rightarrow> ServerIni option" where
  "serverIni hosts =
     (case hosts of
        None \<Rightarrow> None
      | Some hs \<Rightarrow>
          Some \<lparr>domain = index0 hs, root_url = ''https://'' @ template_string (index0 hs)\<rparr>)"

definition datasourcesValues :: "GrafanaDataSource list option \<Rightarrow> DatasourcesValues" where
  "datasourcesValues dss =
     \<lparr>datasources_yaml =
        \<lparr>dsy_apiVersion = 1,
         dsy_datasources =
           (case dss of
              None \<Rightarrow> []
            | Some ds \<Rightarrow>
                map (\<lambda>datasource.
                      \<lparr>dsv_name = ds_name datasource,
                       dsv_type = ds_type datasource,
                       dsv_url = ds_url datasource,
                       access = ''proxy'',
                       basicAuth = False,
                       dsv_editable = False\<rparr>) ds)\<rparr>\<rparr>"

text \<open>\<^verbatim>\<open>reduce\<close> runs from the left, from the empty object.\<close>

definition dashboardsValues :: "GrafanaDashboard list option \<Rightarrow> DashboardsValues option" where
  "dashboardsValues dbs =
     (case dbs of
        None \<Rightarrow> None
      | Some ds \<Rightarrow>
          Some \<lparr>dashboards_default =
            foldl (\<lambda>prev curr. prev(dashboard_name curr \<mapsto> dashboard_rest curr)) Map.empty ds\<rparr>)"

definition dashboardProvidersValues ::
    "GrafanaDashboard list option \<Rightarrow> DashboardProvidersValues option" where
  "dashboardProvidersValues dbs =
     (case dbs of
        None \<Rightarrow> None
      | Some ds \<Rightarrow>
          Some \<lparr>dashboardproviders_yaml =
            \<lparr>dpy_apiVersion = 1,
             providers =
               [\<lparr>prov_name = ''default'',
                 orgId = 1,
                 folder = [],
                 prov_type = ''file'',
                 disableDeletion = False,
                 prov_editable = True,
                 options = \<lparr>path = ''/var/lib/grafana/dashboards/default''\<rparr>\<rparr>]\<rparr>\<rparr>)"

text \<open>
  The constructor: the outputs of the component and the arguments of the chart. (The
  transformation of the chart acts on the rendered resources, not on the values.)
\<close>

definition Grafana :: "secret_generator \<Rightarrow> string \<Rightarrow> GrafanaInputs option \<Rightarrow> GrafanaChart" where
  "Grafana gen name props =
     (let password = gen name ''grafana-admin-password'' \<lparr>rs_length = 32, special = False\<rparr> in
      \<lparr>out_ingress = Option.bind props ingress,
       out_persistence = Option.bind props persistence,
       adminUsername = ''admin'',
       out_adminPassword = password,
       gf_meta =
         \<lparr>chart = ''grafana'',
          meta_version = (case Option.bind props gf_version of Some v \<Rightarrow> v | None \<Rightarrow> ''4.2.2''),
          repo = ''https://kubernetes-charts.storage.googleapis.com''\<rparr>,
       gf_release = name @ ''-grafana'',
       gf_chart_namespace = Option.bind props gf_namespace,
       gf_values =
         \<lparr>adminUser = ''admin'',
          adminPassword = password,
          gv_ingress = ingressValues name (Option.bind props ingress),
          deploymentStrategy = \<lparr>strategy_type = ''Recreate''\<rparr>,
          gv_persistence = persistenceValues (Option.bind props persistence),
          testFramework = \<lparr>enabled = False\<rparr>,
          grafana_ini =
            \<lparr>server = serverIni (Option.bind (Option.bind props ingress) ing_hosts),
             auth_anonymous =
               \<lparr>anon_enabled = ''true'', org_name = ''Main Org.'', org_role = ''Editor''\<rparr>,
             auth_basic = \<lparr>basic_enabled = ''false''\<rparr>\<rparr>,
          gv_datasources = datasourcesValues (Option.bind props datasources),
          gv_dashboards = dashboardsValues (Option.bind props dashboards),
          dashboardProviders = dashboardProvidersValues (Option.bind props dashboards)\<rparr>\<rparr>)"

section \<open>Properties of MetalLB\<close>

lemma MetalLB_address_pools:
  "address_pools (configInline (mlb_values (MetalLB name props))) =
     map_option (map addressPoolValues) (Option.bind props addressPools)"
  by (simp add: MetalLB_def)

text \<open>
  C4 as stated (an empty address-pool input gives an absent \<^verbatim>\<open>address-pools\<close> list) fails:
  \<^verbatim>\<open>[].map(...)\<close> is \<^verbatim>\<open>[]\<close>, so the empty input list is emitted as an empty list.
\<close>

theorem address_pools_empty_input_counterexample:
  "address_pools (configInline (mlb_values (MetalLB ''metal-lb''
      (Some \<lparr>mlb_namespace = None, mlb_version = None, addressPools = Some []\<rparr>)))) = Some []"
  by (simp add: MetalLB_address_pools)

text \<open>
  C4, amended: the emitted \<^verbatim>\<open>address-pools\<close> list is absent exactly when the address-pool
  input is absent (no props at all, or props without \<^verbatim>\<open>addressPools\<close>), so that the chart
  default applies; an empty input list is passed on as an empty list.
\<close>

theorem address_pools_absent_iff_input_absent:
  "(address_pools (configInline (mlb_values (MetalLB name props))) = None) =
     (props = None \<or> (\<exists>p. props = Some p \<and> addressPools p = None))
   \<and> address_pools (configInline (mlb_values (MetalLB name (Some (p\<lparr>addressPools := Some []\<rparr>))))) = Some []"
  by (cases props) (simp_all add: MetalLB_address_pools)

text \<open>
  C8: every emitted pool entry carries the name, protocol and addresses of the input pool
  at the same position, and its \<^verbatim>\<open>avoid-buggy-ips\<close> flag is true; the input has no such
  field, so no input can change it.
\<close>

theorem address_pool_entries_forced_flag:
  assumes "addressPools p = Some pools"
  shows "\<exists>out. address_pools (configInline (mlb_values (MetalLB name (Some p)))) = Some out
           \<and> length out = length pools
           \<and> (\<forall>i < length pools.
                 apv_name (out ! i) = pool_name (pools ! i)
               \<and> apv_protocol (out ! i) = pool_protocol (pools ! i)
               \<and> apv_addresses (out ! i) = pool_addresses (pools ! i)
               \<and> avoid_buggy_ips (out ! i) = True)"
  using assms by (simp add: MetalLB_address_pools addressPoolValues_def)

theorem address_pool_entries_forced_flag_witness:
  "addressPools \<lparr>mlb_namespace = None, mlb_version = None,
      addressPools = Some [\<lparr>pool_name = ''default'', pool_protocol = layer2,
                            pool_addresses = [''192.168.1.240-192.168.1.250'']\<rparr>]\<rparr>
     = Some [\<lparr>pool_name = ''default'', pool_protocol = layer2,
              pool_addresses = [''192.168.1.240-192.168.1.250'']\<rparr>]
   \<and> (\<exists>out. address_pools (configInline (mlb_values (MetalLB ''metal-lb''
          (Some \<lparr>mlb_namespace = None, mlb_version = None,
              addressPools = Some [\<lparr>pool_name = ''default'', pool_protocol = layer2,
                                    pool_addresses = [''192.168.1.240-192.168.1.250'']\<rparr>]\<rparr>)))) = Some out
        \<and> length out = 1
        \<and> apv_name (out ! 0) = ''default''
        \<and> apv_addresses (out ! 0) = [''192.168.1.240-192.168.1.250'']
        \<and> avoid_buggy_ips (out ! 0) = True)"
  using address_pool_entries_forced_flag
    [of "\<lparr>mlb_namespace = None, mlb_version = None,
      addressPools = Some [\<lparr>pool_name = ''default'', pool_protocol = layer2,
                            pool_addresses = [''192.168.1.240-192.168.1.250'']\<rparr>]\<rparr>"
        "[\<lparr>pool_name = ''default'', pool_protocol = layer2,
                            pool_addresses = [''192.168.1.240-192.168.1.250'']\<rparr>]" "''metal-lb''"]
  by auto


section \<open>Properties of NginxIngress\<close>



lemma NginxIngress_affinity:
  "affinity (controller (ngx_values (NginxIngress name props))) = affinity (controllerValues props)"
  by (simp add: NginxIngress_def Let_def)

lemma NginxIngress_tcp:
  "tcp (ngx_values (NginxIngress name props)) =
     l4Services (case Option.bind props tcpServices of Some t \<Rightarrow> t | None \<Rightarrow> [])"
  by (simp add: NginxIngress_def Let_def)

lemma NginxIngress_udp:
  "udp (ngx_values (NginxIngress name props)) =
     l4Services (case Option.bind props udpServices of Some t \<Rightarrow> t | None \<Rightarrow> [])"
  by (simp add: NginxIngress_def Let_def)

lemma l4Services_loop_lookup:
  "distinct (map fst props) \<Longrightarrow>
   l4Services_loop props backends k =
     (case map_of props k of
        Some b \<Rightarrow> Some (l4_namespace b @ ''/'' @ serviceName b @ '':'' @ toString (servicePort b))
      | None \<Rightarrow> backends k)"
proof (induction props arbitrary: backends)
  case Nil
  then show ?case by simp
next
  case (Cons e rest)
  obtain key val where e: "e = (key, val)" by (cases e)
  from Cons.prems e have fresh: "key \<notin> fst ` set rest" and d: "distinct (map fst rest)"
    by auto
  from fresh have "map_of rest key = None"
    by (simp add: map_of_eq_None_iff)
  with Cons.IH [OF d] e show ?case
    by (auto split: option.splits)
qed

lemma l4Services_lookup:
  "distinct (map fst props) \<Longrightarrow>
   l4Services props k =
     map_option (\<lambda>b. l4_namespace b @ ''/'' @ serviceName b @ '':'' @ toString (servicePort b))
       (map_of props k)"
  by (simp add: l4Services_def l4Services_loop_lookup split: option.splits)

lemma l4Services_dom: "distinct (map fst props) \<Longrightarrow> dom (l4Services props) = fst ` set props"
  by (simp add: l4Services_lookup dom_def dom_map_of_conv_image_fst [symmetric])

lemma l4Services_entry:
  "distinct (map fst props) \<Longrightarrow> (port, b) \<in> set props \<Longrightarrow>
   l4Services props port = Some (l4_namespace b @ ''/'' @ serviceName b @ '':'' @ toString (servicePort b))"
  by (simp add: l4Services_lookup)

text \<open>
  C1 holds when the replica count is given as a plain number, or not at all: in Deployment
  mode (also the default, with no props or no mode) the controller values have no
  \<^verbatim>\<open>affinity\<close> when the count is at most 1, and for a count of 2 or more they have the soft
  (preferred, weight 1) pod anti-affinity over the topology \<^verbatim>\<open>kubernetes.io/hostname\<close> whose
  label selector asks for \<^verbatim>\<open>app In [nginx-ingress]\<close> and \<^verbatim>\<open>component In [controller]\<close>.
\<close>

lemma deployment_affinity_plain_replicas:
  "affinity (controller (ngx_values (NginxIngress name None))) = None
   \<and> (mode p = None \<longrightarrow> affinity (controller (ngx_values (NginxIngress name (Some p)))) = None)
   \<and> (mode p = Some (Deployment m) \<longrightarrow>
        (case replicas m of
           None \<Rightarrow> affinity (controller (ngx_values (NginxIngress name (Some p)))) = None
         | Some (Plain r) \<Rightarrow>
            (r \<le> 1 \<longrightarrow> affinity (controller (ngx_values (NginxIngress name (Some p)))) = None)
          \<and> (2 \<le> r \<longrightarrow> affinity (controller (ngx_values (NginxIngress name (Some p)))) =
                Some \<lparr>podAntiAffinity =
         \<lparr>preferredDuringSchedulingIgnoredDuringExecution =
           [\<lparr>weight = 1,
             podAffinityTerm =
               \<lparr>topologyKey = ''kubernetes.io/hostname'',
                labelSelector =
                  \<lparr>matchExpressions =
                     [\<lparr>me_key = ''app'', me_operator = ''In'', me_values = [''nginx-ingress'']\<rparr>,
                      \<lparr>me_key = ''component'', me_operator = ''In'',
                       me_values = [''controller'']\<rparr>]\<rparr>\<rparr>\<rparr>]\<rparr>\<rparr>)
         | Some _ \<Rightarrow> True))"
  by (simp add: NginxIngress_affinity controllerValues_def deploymentValues_def Let_def le_one_def
      split: option.splits Input.splits)

text \<open>
  C1 at a replica count of 1 given as an Output, \<^verbatim>\<open>replicas: pulumi.output(1)\<close>, or as a
  Promise: the comparison \<^verbatim>\<open>replicas <= 1\<close> is false, and the controller values have the
  anti-affinity block, against the claim and against the comment above the comparison
  (the policy is added only if there are more than 1 replicas).
\<close>

theorem deployment_affinity_wrapped_replicas_evaluation:
  "affinity (controller (ngx_values (NginxIngress ''nginx-ingress''
      (Some \<lparr>ngx_namespace = None, ngx_version = None,
         mode = Some (Deployment \<lparr>replicas = Some (Output 1), loadBalancerIP = None,
                                  serviceAnnotations = None\<rparr>),
         config = None, tcpServices = None, udpServices = None, maxmindLicenseKey = None\<rparr>)))) =
       Some \<lparr>podAntiAffinity =
         \<lparr>preferredDuringSchedulingIgnoredDuringExecution =
           [\<lparr>weight = 1,
             podAffinityTerm =
               \<lparr>topologyKey = ''kubernetes.io/hostname'',
                labelSelector =
                  \<lparr>matchExpressions =
                     [\<lparr>me_key = ''app'', me_operator = ''In'', me_values = [''nginx-ingress'']\<rparr>,
                      \<lparr>me_key = ''component'', me_operator = ''In'',
                       me_values = [''controller'']\<rparr>]\<rparr>\<rparr>\<rparr>]\<rparr>\<rparr>
   \<and> affinity (controller (ngx_values (NginxIngress ''nginx-ingress''
      (Some \<lparr>ngx_namespace = None, ngx_version = None,
         mode = Some (Deployment \<lparr>replicas = Some (Promise 1), loadBalancerIP = None,
                                  serviceAnnotations = None\<rparr>),
         config = None, tcpServices = None, udpServices = None, maxmindLicenseKey = None\<rparr>)))) =
       Some \<lparr>podAntiAffinity =
         \<lparr>preferredDuringSchedulingIgnoredDuringExecution =
           [\<lparr>weight = 1,
             podAffinityTerm =
               \<lparr>topologyKey = ''kubernetes.io/hostname'',
                labelSelector =
                  \<lparr>matchExpressions =
                     [\<lparr>me_key = ''app'', me_operator = ''In'', me_values = [''nginx-ingress'']\<rparr>,
                      \<lparr>me_key = ''component'', me_operator = ''In'',
                       me_values = [''controller'']\<rparr>]\<rparr>\<rparr>\<rparr>]\<rparr>\<rparr>"
  by (simp add: NginxIngress_affinity controllerValues_def deploymentValues_def Let_def le_one_def)

text \<open>
  C7: the \<^verbatim>\<open>tcp\<close> block is made from the TCP table alone and the \<^verbatim>\<open>udp\<close> block from the UDP
  table alone. Without props or without the table the block is empty. For a table (an
  object: distinct keys) of safe-integer ports, the block has exactly the ports of the
  table, and the entry of port \<open>p\<close> with backend \<open>b\<close> is mapped to the locator
  \<^verbatim>\<open><namespace>/<serviceName>:<servicePort>\<close> of \<open>b\<close>.
\<close>

theorem l4_tables_mapped_to_locators:
  "tcp (ngx_values (NginxIngress name None)) = Map.empty
   \<and> udp (ngx_values (NginxIngress name None)) = Map.empty
   \<and> (tcpServices p = None \<longrightarrow> tcp (ngx_values (NginxIngress name (Some p))) = Map.empty)
   \<and> (udpServices p = None \<longrightarrow> udp (ngx_values (NginxIngress name (Some p))) = Map.empty)
   \<and> (\<forall>t. tcpServices p = Some t \<and> distinct (map fst t)
          \<and> (\<forall>(port, b) \<in> set t. safe_integer port \<and> safe_integer (servicePort b)) \<longrightarrow>
        dom (tcp (ngx_values (NginxIngress name (Some p)))) = fst ` set t
        \<and> (\<forall>(port, b) \<in> set t. tcp (ngx_values (NginxIngress name (Some p))) port =
              Some (l4_namespace b @ ''/'' @ serviceName b @ '':'' @ toString (servicePort b))))
   \<and> (\<forall>u. udpServices p = Some u \<and> distinct (map fst u)
          \<and> (\<forall>(port, b) \<in> set u. safe_integer port \<and> safe_integer (servicePort b)) \<longrightarrow>
        dom (udp (ngx_values (NginxIngress name (Some p)))) = fst ` set u
        \<and> (\<forall>(port, b) \<in> set u. udp (ngx_values (NginxIngress name (Some p))) port =
              Some (l4_namespace b @ ''/'' @ serviceName b @ '':'' @ toString (servicePort b))))"
proof (intro conjI allI impI)
  show "tcp (ngx_values (NginxIngress name None)) = Map.empty"
    by (simp add: NginxIngress_tcp l4Services_def)
  show "udp (ngx_values (NginxIngress name None)) = Map.empty"
    by (simp add: NginxIngress_udp l4Services_def)
  show "tcp (ngx_values (NginxIngress name (Some p))) = Map.empty" if "tcpServices p = None"
    using that by (simp add: NginxIngress_tcp l4Services_def)
  show "udp (ngx_values (NginxIngress name (Some p))) = Map.empty" if "udpServices p = None"
    using that by (simp add: NginxIngress_udp l4Services_def)
next
  fix t
  assume h: "tcpServices p = Some t \<and> distinct (map fst t)
      \<and> (\<forall>(port, b) \<in> set t. safe_integer port \<and> safe_integer (servicePort b))"
  then have eq: "tcp (ngx_values (NginxIngress name (Some p))) = l4Services t"
    by (simp add: NginxIngress_tcp)
  from h show "dom (tcp (ngx_values (NginxIngress name (Some p)))) = fst ` set t"
    unfolding eq by (simp add: l4Services_dom)
  from h show "\<forall>(port, b) \<in> set t. tcp (ngx_values (NginxIngress name (Some p))) port =
      Some (l4_namespace b @ ''/'' @ serviceName b @ '':'' @ toString (servicePort b))"
    unfolding eq by (auto simp: l4Services_entry)
next
  fix u
  assume h: "udpServices p = Some u \<and> distinct (map fst u)
      \<and> (\<forall>(port, b) \<in> set u. safe_integer port \<and> safe_integer (servicePort b))"
  then have eq: "udp (ngx_values (NginxIngress name (Some p))) = l4Services u"
    by (simp add: NginxIngress_udp)
  from h show "dom (udp (ngx_values (NginxIngress name (Some p)))) = fst ` set u"
    unfolding eq by (simp add: l4Services_dom)
  from h show "\<forall>(port, b) \<in> set u. udp (ngx_values (NginxIngress name (Some p))) port =
      Some (l4_namespace b @ ''/'' @ serviceName b @ '':'' @ toString (servicePort b))"
    unfolding eq by (auto simp: l4Services_entry)
qed

text \<open>
  The TCP table \<^verbatim>\<open>{5432: {namespace: "db", serviceName: "postgres", servicePort: 5432}}\<close>
  alone, without a UDP table: the \<^verbatim>\<open>tcp\<close> block is \<^verbatim>\<open>{5432: "db/postgres:5432"}\<close> and the
  \<^verbatim>\<open>udp\<close> block is empty; and a UDP table alone.
\<close>

theorem l4_tables_mapped_to_locators_witness:
  "tcp (ngx_values (NginxIngress ''nginx-ingress''
      (Some \<lparr>ngx_namespace = None, ngx_version = None, mode = None, config = None,
         tcpServices = Some [(5432, \<lparr>l4_namespace = ''db'', serviceName = ''postgres'', servicePort = 5432\<rparr>)],
         udpServices = None, maxmindLicenseKey = None\<rparr>))) = [5432 \<mapsto> ''db/postgres:5432'']
   \<and> udp (ngx_values (NginxIngress ''nginx-ingress''
      (Some \<lparr>ngx_namespace = None, ngx_version = None, mode = None, config = None,
         tcpServices = Some [(5432, \<lparr>l4_namespace = ''db'', serviceName = ''postgres'', servicePort = 5432\<rparr>)],
         udpServices = None, maxmindLicenseKey = None\<rparr>))) = Map.empty
   \<and> udp (ngx_values (NginxIngress ''nginx-ingress''
      (Some \<lparr>ngx_namespace = None, ngx_version = None, mode = None, config = None,
         tcpServices = None,
         udpServices = Some [(53, \<lparr>l4_namespace = ''kube-system'', serviceName = ''kube-dns'', servicePort = 53\<rparr>)],
         maxmindLicenseKey = None\<rparr>))) = [53 \<mapsto> ''kube-system/kube-dns:53'']
   \<and> tcp (ngx_values (NginxIngress ''nginx-ingress''
      (Some \<lparr>ngx_namespace = None, ngx_version = None, mode = None, config = None,
         tcpServices = None,
         udpServices = Some [(53, \<lparr>l4_namespace = ''kube-system'', serviceName = ''kube-dns'', servicePort = 53\<rparr>)],
         maxmindLicenseKey = None\<rparr>))) = Map.empty"
proof -
  let ?t = "[(5432::int, \<lparr>l4_namespace = ''db'', serviceName = ''postgres'', servicePort = 5432\<rparr>)]"
  let ?u = "[(53::int, \<lparr>l4_namespace = ''kube-system'', serviceName = ''kube-dns'', servicePort = 53\<rparr>)]"
  let ?p = "\<lparr>ngx_namespace = None, ngx_version = None, mode = None, config = None,
         tcpServices = Some ?t, udpServices = None, maxmindLicenseKey = None\<rparr>"
  let ?q = "\<lparr>ngx_namespace = None, ngx_version = None, mode = None, config = None,
         tcpServices = None, udpServices = Some ?u, maxmindLicenseKey = None\<rparr>"
  have n1: "toString 5432 = ''5432''" and n2: "toString 53 = ''53''"
    by (simp_all add: toString_def digits.simps)
  have ht: "tcpServices ?p = Some ?t \<and> distinct (map fst ?t)
      \<and> (\<forall>(port, b) \<in> set ?t. safe_integer port \<and> safe_integer (servicePort b))"
    by (simp add: safe_integer_def)
  have hu: "udpServices ?q = Some ?u \<and> distinct (map fst ?u)
      \<and> (\<forall>(port, b) \<in> set ?u. safe_integer port \<and> safe_integer (servicePort b))"
    by (simp add: safe_integer_def)
  note rp = l4_tables_mapped_to_locators [of "''nginx-ingress''" ?p]
  note rq = l4_tables_mapped_to_locators [of "''nginx-ingress''" ?q]
  from rp ht have tp: "dom (tcp (ngx_values (NginxIngress ''nginx-ingress'' (Some ?p)))) = fst ` set ?t
      \<and> (\<forall>(port, b) \<in> set ?t. tcp (ngx_values (NginxIngress ''nginx-ingress'' (Some ?p))) port =
              Some (l4_namespace b @ ''/'' @ serviceName b @ '':'' @ toString (servicePort b)))"
    by blast
  from rq hu have uq: "dom (udp (ngx_values (NginxIngress ''nginx-ingress'' (Some ?q)))) = fst ` set ?u
      \<and> (\<forall>(port, b) \<in> set ?u. udp (ngx_values (NginxIngress ''nginx-ingress'' (Some ?q))) port =
              Some (l4_namespace b @ ''/'' @ serviceName b @ '':'' @ toString (servicePort b)))"
    by blast
  from rp have up: "udp (ngx_values (NginxIngress ''nginx-ingress'' (Some ?p))) = Map.empty"
    by simp
  from rq have tq: "tcp (ngx_values (NginxIngress ''nginx-ingress'' (Some ?q))) = Map.empty"
    by simp
  have "tcp (ngx_values (NginxIngress ''nginx-ingress'' (Some ?p))) k = [5432 \<mapsto> ''db/postgres:5432''] k" for k
  proof (cases "k = 5432")
    case True
    with tp show ?thesis by (simp add: n1)
  next
    case False
    with tp have "k \<notin> dom (tcp (ngx_values (NginxIngress ''nginx-ingress'' (Some ?p))))"
      by simp
    with False show ?thesis by (simp add: domIff)
  qed
  then have a: "tcp (ngx_values (NginxIngress ''nginx-ingress'' (Some ?p))) = [5432 \<mapsto> ''db/postgres:5432'']"
    by (simp add: fun_eq_iff)
  have "udp (ngx_values (NginxIngress ''nginx-ingress'' (Some ?q))) k = [53 \<mapsto> ''kube-system/kube-dns:53''] k" for k
  proof (cases "k = 53")
    case True
    with uq show ?thesis by (simp add: n2)
  next
    case False
    with uq have "k \<notin> dom (udp (ngx_values (NginxIngress ''nginx-ingress'' (Some ?q))))"
      by simp
    with False show ?thesis by (simp add: domIff)
  qed
  then have b: "udp (ngx_values (NginxIngress ''nginx-ingress'' (Some ?q))) = [53 \<mapsto> ''kube-system/kube-dns:53'']"
    by (simp add: fun_eq_iff)
  from a up b tq show ?thesis by (intro conjI)
qed

section \<open>Properties of Grafana\<close>

lemma Grafana_annotations:
  "iv_annotations (gv_ingress (gf_values (Grafana gen name props))) =
     iv_annotations (ingressValues name (Option.bind props ingress))"
  by (simp add: Grafana_def Let_def)

lemma Grafana_server:
  "server (grafana_ini (gf_values (Grafana gen name props))) =
     serverIni (Option.bind (Option.bind props ingress) ing_hosts)"
  by (simp add: Grafana_def Let_def)

lemma Grafana_dashboards:
  "gv_dashboards (gf_values (Grafana gen name props)) = dashboardsValues (Option.bind props dashboards)"
  "dashboardProviders (gf_values (Grafana gen name props)) =
     dashboardProvidersValues (Option.bind props dashboards)"
  by (simp_all add: Grafana_def Let_def)

lemma Grafana_password:
  "out_adminPassword (Grafana gen name props) =
     gen name ''grafana-admin-password'' \<lparr>rs_length = 32, special = False\<rparr>"
  "adminPassword (gf_values (Grafana gen name props)) =
     gen name ''grafana-admin-password'' \<lparr>rs_length = 32, special = False\<rparr>"
  by (simp_all add: Grafana_def Let_def)

lemma annotations_of_ingress:
  assumes "ingress p = Some i"
  shows "iv_annotations (gv_ingress (gf_values (Grafana gen name (Some p)))) =
     Some ([''kubernetes.io/ingress.class'' \<mapsto> (case ing_class i of Some c \<Rightarrow> c | None \<Rightarrow> ''nginx''),
            ''kubernetes.io/tls-acme'' \<mapsto> (if ing_tls i = Some False then ''false'' else ''true'')]
           ++ (case ing_annotations i of Some a \<Rightarrow> a | None \<Rightarrow> Map.empty))"
  using assms by (simp add: Grafana_annotations ingressValues_def)

text \<open>
  C2 as stated (with zero dashboards given, neither block is present) fails for the empty
  list: \<^verbatim>\<open>!props?.dashboards\<close> is false for \<^verbatim>\<open>[]\<close>, so \<^verbatim>\<open>dashboards\<close> is \<^verbatim>\<open>{ default: {} }\<close>
  and \<^verbatim>\<open>dashboardProviders\<close> is the fixed provider document.
\<close>

theorem dashboards_empty_list_counterexample:
  "gv_dashboards (gf_values (Grafana (\<lambda>parent n a. replicate (rs_length a) CHR ''x'') ''grafana''
      (Some \<lparr>gf_namespace = None, gf_version = None, dashboards = Some [], datasources = None,
             ingress = None, persistence = None\<rparr>))) = Some \<lparr>dashboards_default = Map.empty\<rparr>
   \<and> dashboardProviders (gf_values (Grafana (\<lambda>parent n a. replicate (rs_length a) CHR ''x'') ''grafana''
      (Some \<lparr>gf_namespace = None, gf_version = None, dashboards = Some [], datasources = None,
             ingress = None, persistence = None\<rparr>))) \<noteq> None"
  by (simp add: Grafana_dashboards dashboardsValues_def dashboardProvidersValues_def)

text \<open>
  C2, amended: the \<^verbatim>\<open>dashboards\<close> block and the \<^verbatim>\<open>dashboardProviders\<close> block are absent
  exactly when the dashboards input is absent (no props, or props without \<^verbatim>\<open>dashboards\<close>);
  an empty list of dashboards gives a \<^verbatim>\<open>dashboards\<close> block with an empty \<^verbatim>\<open>default\<close> map.
\<close>

theorem dashboard_blocks_absent_iff_input_absent:
  "(gv_dashboards (gf_values (Grafana gen name props)) = None) =
     (props = None \<or> (\<exists>p. props = Some p \<and> dashboards p = None))
   \<and> (dashboardProviders (gf_values (Grafana gen name props)) = None) =
     (props = None \<or> (\<exists>p. props = Some p \<and> dashboards p = None))
   \<and> gv_dashboards (gf_values (Grafana gen name (Some (p\<lparr>dashboards := Some []\<rparr>)))) =
       Some \<lparr>dashboards_default = Map.empty\<rparr>"
  by (cases props)
    (simp_all add: Grafana_dashboards dashboardsValues_def dashboardProvidersValues_def
      split: option.splits)

text \<open>
  C3 holds for a missing hosts list and for a list with a first hostname:
\<close>

lemma server_from_first_host:
  "server (grafana_ini (gf_values (Grafana gen name None))) = None
   \<and> server (grafana_ini (gf_values (Grafana gen name (Some (p\<lparr>ingress := None\<rparr>))))) = None
   \<and> server (grafana_ini (gf_values (Grafana gen name
        (Some (p\<lparr>ingress := Some (i\<lparr>ing_hosts := None\<rparr>)\<rparr>))))) = None
   \<and> server (grafana_ini (gf_values (Grafana gen name
        (Some (p\<lparr>ingress := Some (i\<lparr>ing_hosts := Some (h # hs)\<rparr>)\<rparr>))))) =
        Some \<lparr>domain = Some h, root_url = ''https://'' @ h\<rparr>"
  by (simp add: Grafana_server serverIni_def index0_def template_string_def)

text \<open>
  C3 at the empty hosts list: the \<^verbatim>\<open>server\<close> block is not omitted. \<^verbatim>\<open>!hosts\<close> is false for
  \<^verbatim>\<open>[]\<close>, \<^verbatim>\<open>hosts[0]\<close> is \<^verbatim>\<open>undefined\<close>, and the block is emitted without a domain and with
  the root URL \<^verbatim>\<open>https://undefined\<close>.
\<close>

theorem server_empty_hosts_evaluation:
  "server (grafana_ini (gf_values (Grafana (\<lambda>parent n a. replicate (rs_length a) CHR ''x'') ''grafana''
      (Some \<lparr>gf_namespace = None, gf_version = None, dashboards = None, datasources = None,
             ingress = Some \<lparr>ing_enabled = None, ing_class = None, ing_tls = None,
                              ing_hosts = Some [], ing_annotations = None\<rparr>,
             persistence = None\<rparr>)))) = Some \<lparr>domain = None, root_url = ''https://undefined''\<rparr>"
  by (simp add: Grafana_server serverIni_def index0_def template_string_def)

text \<open>
  C5: with an ingress given, the final annotations have the two computed keys and the
  caller's keys and no others; every annotation of the caller is in the result with the
  caller's value, also under one of the two computed keys; a computed key the caller does
  not set has its computed value (the class, \<^verbatim>\<open>nginx\<close> by default; the TLS-acme flag).
\<close>

theorem caller_annotations_override_computed:
  assumes "ingress p = Some i"
  shows "\<exists>m. iv_annotations (gv_ingress (gf_values (Grafana gen name (Some p)))) = Some m
    \<and> dom m = {''kubernetes.io/ingress.class'', ''kubernetes.io/tls-acme''}
               \<union> (case ing_annotations i of Some a \<Rightarrow> dom a | None \<Rightarrow> {})
    \<and> (\<forall>a k v. ing_annotations i = Some a \<and> a k = Some v \<longrightarrow> m k = Some v)
    \<and> ((\<forall>a. ing_annotations i = Some a \<longrightarrow> a ''kubernetes.io/ingress.class'' = None) \<longrightarrow>
          m ''kubernetes.io/ingress.class'' = Some (case ing_class i of Some c \<Rightarrow> c | None \<Rightarrow> ''nginx''))
    \<and> ((\<forall>a. ing_annotations i = Some a \<longrightarrow> a ''kubernetes.io/tls-acme'' = None) \<longrightarrow>
          m ''kubernetes.io/tls-acme'' = Some (if ing_tls i = Some False then ''false'' else ''true''))"
proof -
  define computed where "computed =
    [''kubernetes.io/ingress.class'' \<mapsto> (case ing_class i of Some c \<Rightarrow> c | None \<Rightarrow> ''nginx''),
     ''kubernetes.io/tls-acme'' \<mapsto> (if ing_tls i = Some False then ''false'' else ''true'')]"
  define caller where "caller = (case ing_annotations i of Some a \<Rightarrow> a | None \<Rightarrow> Map.empty)"
  define m where "m = computed ++ caller"
  have m: "iv_annotations (gv_ingress (gf_values (Grafana gen name (Some p)))) = Some m"
    unfolding m_def computed_def caller_def by (rule annotations_of_ingress [OF assms])
  have dc: "dom computed = {''kubernetes.io/ingress.class'', ''kubernetes.io/tls-acme''}"
    unfolding computed_def by (simp add: insert_commute)
  have dk: "dom caller = (case ing_annotations i of Some a \<Rightarrow> dom a | None \<Rightarrow> {})"
    unfolding caller_def by (simp split: option.splits)
  have d: "dom m = {''kubernetes.io/ingress.class'', ''kubernetes.io/tls-acme''}
               \<union> (case ing_annotations i of Some a \<Rightarrow> dom a | None \<Rightarrow> {})"
    unfolding m_def dom_map_add dc dk by (rule Un_commute)
  have w: "\<forall>a k v. ing_annotations i = Some a \<and> a k = Some v \<longrightarrow> m k = Some v"
    unfolding m_def caller_def by (simp add: map_add_Some_iff)
  have keep: "m k = computed k" if "\<forall>a. ing_annotations i = Some a \<longrightarrow> a k = None" for k
  proof -
    from that have "caller k = None"
      unfolding caller_def by (simp split: option.splits)
    then show ?thesis unfolding m_def by (simp add: map_add_def)
  qed
  have c1: "computed ''kubernetes.io/ingress.class'' =
      Some (case ing_class i of Some c \<Rightarrow> c | None \<Rightarrow> ''nginx'')"
    unfolding computed_def by simp
  have c2: "computed ''kubernetes.io/tls-acme'' =
      Some (if ing_tls i = Some False then ''false'' else ''true'')"
    unfolding computed_def by simp
  from m d w keep [of "''kubernetes.io/ingress.class''"] keep [of "''kubernetes.io/tls-acme''"] c1 c2
  show ?thesis by (intro exI [of _ m] conjI impI) simp_all
qed

text \<open>
  The caller annotation \<^verbatim>\<open>{"kubernetes.io/ingress.class": "custom"}\<close>: the final class
  annotation is \<^verbatim>\<open>custom\<close>.
\<close>

theorem caller_annotations_override_computed_witness:
  "\<exists>m. iv_annotations (gv_ingress (gf_values (Grafana (\<lambda>parent n a. replicate (rs_length a) CHR ''x'') ''grafana''
      (Some \<lparr>gf_namespace = None, gf_version = None, dashboards = None, datasources = None,
             ingress = Some \<lparr>ing_enabled = None, ing_class = None, ing_tls = None,
                              ing_hosts = None,
                              ing_annotations = Some [''kubernetes.io/ingress.class'' \<mapsto> ''custom'']\<rparr>,
             persistence = None\<rparr>)))) = Some m
     \<and> m ''kubernetes.io/ingress.class'' = Some ''custom''
     \<and> m ''kubernetes.io/tls-acme'' = Some ''true''
     \<and> dom m = {''kubernetes.io/ingress.class'', ''kubernetes.io/tls-acme''}"
proof -
  let ?a = "[''kubernetes.io/ingress.class'' \<mapsto> ''custom'']"
  let ?i = "\<lparr>ing_enabled = None, ing_class = None, ing_tls = None, ing_hosts = None,
             ing_annotations = Some ?a\<rparr>"
  let ?p = "\<lparr>gf_namespace = None, gf_version = None, dashboards = None, datasources = None,
             ingress = Some ?i, persistence = None\<rparr>"
  let ?gen = "\<lambda>(parent::string) (n::string) a. replicate (rs_length a) CHR ''x''"
  have h: "ingress ?p = Some ?i" by simp
  from caller_annotations_override_computed [OF h, of ?gen "''grafana''"]
  obtain m where m: "iv_annotations (gv_ingress (gf_values (Grafana ?gen ''grafana'' (Some ?p)))) = Some m"
    and d: "dom m = {''kubernetes.io/ingress.class'', ''kubernetes.io/tls-acme''}
               \<union> (case ing_annotations ?i of Some a \<Rightarrow> dom a | None \<Rightarrow> {})"
    and w: "\<forall>a k v. ing_annotations ?i = Some a \<and> a k = Some v \<longrightarrow> m k = Some v"
    and t: "(\<forall>a. ing_annotations ?i = Some a \<longrightarrow> a ''kubernetes.io/tls-acme'' = None) \<longrightarrow>
          m ''kubernetes.io/tls-acme'' = Some (if ing_tls ?i = Some False then ''false'' else ''true'')"
    by (elim exE conjE)
  from w have c: "m ''kubernetes.io/ingress.class'' = Some ''custom''"
    by simp
  from t have t': "m ''kubernetes.io/tls-acme'' = Some ''true''"
    by simp
  from d have d': "dom m = {''kubernetes.io/ingress.class'', ''kubernetes.io/tls-acme''}"
    by simp
  from m c t' d' show ?thesis by (intro exI [of _ m]) simp
qed

text \<open>
  C6 as stated (for every ingress with the TLS flag unset or true, the produced
  \<^verbatim>\<open>kubernetes.io/tls-acme\<close> annotation is \<^verbatim>\<open>"true"\<close>) fails when the caller's annotations set
  that key themselves: the spread comes last, so the caller's value is the one produced.
\<close>

theorem tls_acme_overridden_counterexample:
  "iv_annotations (gv_ingress (gf_values (Grafana (\<lambda>parent n a. replicate (rs_length a) CHR ''x'') ''grafana''
      (Some \<lparr>gf_namespace = None, gf_version = None, dashboards = None, datasources = None,
             ingress = Some \<lparr>ing_enabled = None, ing_class = None, ing_tls = Some True,
                              ing_hosts = None,
                              ing_annotations = Some [''kubernetes.io/tls-acme'' \<mapsto> ''false'']\<rparr>,
             persistence = None\<rparr>)))) =
     Some [''kubernetes.io/ingress.class'' \<mapsto> ''nginx'', ''kubernetes.io/tls-acme'' \<mapsto> ''false'']"
  by (simp add: Grafana_annotations ingressValues_def)

text \<open>
  C6, amended: for every ingress whose caller annotations do not set
  \<^verbatim>\<open>kubernetes.io/tls-acme\<close>, the produced value of that annotation is \<^verbatim>\<open>"true"\<close> when the TLS
  flag is unset or true, and \<^verbatim>\<open>"false"\<close> when it is false.
\<close>

theorem tls_acme_follows_tls_flag:
  assumes "ingress p = Some i"
    and "\<forall>a. ing_annotations i = Some a \<longrightarrow> a ''kubernetes.io/tls-acme'' = None"
  shows "\<exists>m. iv_annotations (gv_ingress (gf_values (Grafana gen name (Some p)))) = Some m
    \<and> (ing_tls i = None \<or> ing_tls i = Some True \<longrightarrow> m ''kubernetes.io/tls-acme'' = Some ''true'')
    \<and> (ing_tls i = Some False \<longrightarrow> m ''kubernetes.io/tls-acme'' = Some ''false'')"
proof -
  define caller where "caller = (case ing_annotations i of Some a \<Rightarrow> a | None \<Rightarrow> Map.empty)"
  define m where "m =
    [''kubernetes.io/ingress.class'' \<mapsto> (case ing_class i of Some c \<Rightarrow> c | None \<Rightarrow> ''nginx''),
     ''kubernetes.io/tls-acme'' \<mapsto> (if ing_tls i = Some False then ''false'' else ''true'')]
    ++ caller"
  have m: "iv_annotations (gv_ingress (gf_values (Grafana gen name (Some p)))) = Some m"
    unfolding m_def caller_def by (rule annotations_of_ingress [OF assms(1)])
  from assms(2) have "caller ''kubernetes.io/tls-acme'' = None"
    unfolding caller_def by (simp split: option.splits)
  then have "m ''kubernetes.io/tls-acme'' = Some (if ing_tls i = Some False then ''false'' else ''true'')"
    unfolding m_def by (simp add: map_add_def)
  with m show ?thesis
    by (intro exI [of _ m]) auto
qed

theorem tls_acme_follows_tls_flag_witness:
  "(\<exists>m. iv_annotations (gv_ingress (gf_values (Grafana (\<lambda>parent n a. replicate (rs_length a) CHR ''x'') ''grafana''
      (Some \<lparr>gf_namespace = None, gf_version = None, dashboards = None, datasources = None,
             ingress = Some \<lparr>ing_enabled = None, ing_class = None, ing_tls = None,
                              ing_hosts = None, ing_annotations = None\<rparr>,
             persistence = None\<rparr>)))) = Some m
      \<and> m ''kubernetes.io/tls-acme'' = Some ''true'')
   \<and> (\<exists>m. iv_annotations (gv_ingress (gf_values (Grafana (\<lambda>parent n a. replicate (rs_length a) CHR ''x'') ''grafana''
      (Some \<lparr>gf_namespace = None, gf_version = None, dashboards = None, datasources = None,
             ingress = Some \<lparr>ing_enabled = None, ing_class = None, ing_tls = Some True,
                              ing_hosts = None, ing_annotations = Some [''team'' \<mapsto> ''ops'']\<rparr>,
             persistence = None\<rparr>)))) = Some m
      \<and> m ''kubernetes.io/tls-acme'' = Some ''true'')
   \<and> (\<exists>m. iv_annotations (gv_ingress (gf_values (Grafana (\<lambda>parent n a. replicate (rs_length a) CHR ''x'') ''grafana''
      (Some \<lparr>gf_namespace = None, gf_version = None, dashboards = None, datasources = None,
             ingress = Some \<lparr>ing_enabled = None, ing_class = None, ing_tls = Some False,
                              ing_hosts = None, ing_annotations = None\<rparr>,
             persistence = None\<rparr>)))) = Some m
      \<and> m ''kubernetes.io/tls-acme'' = Some ''false'')"
proof -
  let ?gen = "\<lambda>(parent::string) (n::string) a. replicate (rs_length a) CHR ''x''"
  let ?i1 = "\<lparr>ing_enabled = None, ing_class = None, ing_tls = None,
              ing_hosts = None, ing_annotations = None\<rparr>"
  let ?i2 = "\<lparr>ing_enabled = None, ing_class = None, ing_tls = Some True,
              ing_hosts = None, ing_annotations = Some [''team'' \<mapsto> ''ops'']\<rparr>"
  let ?i3 = "\<lparr>ing_enabled = None, ing_class = None, ing_tls = Some False,
              ing_hosts = None, ing_annotations = None\<rparr>"
  have a1: "\<forall>a. ing_annotations ?i1 = Some a \<longrightarrow> a ''kubernetes.io/tls-acme'' = None"
    and a2: "\<forall>a. ing_annotations ?i2 = Some a \<longrightarrow> a ''kubernetes.io/tls-acme'' = None"
    and a3: "\<forall>a. ing_annotations ?i3 = Some a \<longrightarrow> a ''kubernetes.io/tls-acme'' = None"
    by auto
  have r1: "ingress \<lparr>gf_namespace = None, gf_version = None, dashboards = None, datasources = None,
             ingress = Some ?i1, persistence = None\<rparr> = Some ?i1"
    and r2: "ingress \<lparr>gf_namespace = None, gf_version = None, dashboards = None, datasources = None,
             ingress = Some ?i2, persistence = None\<rparr> = Some ?i2"
    and r3: "ingress \<lparr>gf_namespace = None, gf_version = None, dashboards = None, datasources = None,
             ingress = Some ?i3, persistence = None\<rparr> = Some ?i3"
    by simp_all
  from tls_acme_follows_tls_flag [OF r1 a1, of ?gen "''grafana''"]
    tls_acme_follows_tls_flag [OF r2 a2, of ?gen "''grafana''"]
    tls_acme_follows_tls_flag [OF r3 a3, of ?gen "''grafana''"]
  show ?thesis by simp
qed

text \<open>
  C9: with a provider that returns a string of the requested length, without a
  non-alphanumeric character when \<^verbatim>\<open>special\<close> is false, the administrator password has 32
  characters, all alphanumeric; it is the password handed to the chart; and it depends on
  the provider and the component's name only: a build with other props has the same one.
\<close>

theorem admin_password_shape:
  assumes "\<forall>parent n a. length (gen parent n a) = rs_length a"
    and "\<forall>parent n a. \<not> special a \<longrightarrow> list_all alphanumeric (gen parent n a)"
  shows "length (out_adminPassword (Grafana gen name props)) = 32
       \<and> list_all alphanumeric (out_adminPassword (Grafana gen name props))
       \<and> adminPassword (gf_values (Grafana gen name props)) = out_adminPassword (Grafana gen name props)
       \<and> out_adminPassword (Grafana gen name props') = out_adminPassword (Grafana gen name props)"
  using assms by (simp add: Grafana_password)

theorem admin_password_shape_witness:
  "length (out_adminPassword (Grafana (\<lambda>parent n a. replicate (rs_length a) CHR ''x'') ''grafana'' None)) = 32
   \<and> list_all alphanumeric
       (out_adminPassword (Grafana (\<lambda>parent n a. replicate (rs_length a) CHR ''x'') ''grafana'' None))"
proof -
  let ?gen = "\<lambda>(parent::string) (n::string) a. replicate (rs_length a) CHR ''x''"
  have l: "\<forall>parent n a. length (?gen parent n a) = rs_length a"
    by simp
  have s: "\<forall>parent n a. \<not> special a \<longrightarrow> list_all alphanumeric (?gen parent n a)"
    by (simp add: list_all_iff alphanumeric_def)
  from admin_password_shape [OF l s, of "''grafana''" None None]
  show ?thesis by simp
qed

text \<open>
  C10: whatever the inputs, \<^verbatim>\<open>grafana.ini\<close> has \<^verbatim>\<open>auth.anonymous\<close> enabled (\<^verbatim>\<open>"true"\<close>) with
  the role \<^verbatim>\<open>Editor\<close>, and \<^verbatim>\<open>auth.basic\<close> disabled (\<^verbatim>\<open>"false"\<close>).
\<close>

theorem anonymous_editor_access_fixed:
  "anon_enabled (auth_anonymous (grafana_ini (gf_values (Grafana gen name props)))) = ''true''
   \<and> org_role (auth_anonymous (grafana_ini (gf_values (Grafana gen name props)))) = ''Editor''
   \<and> basic_enabled (auth_basic (grafana_ini (gf_values (Grafana gen name props)))) = ''false''"
  by (simp add: Grafana_def Let_def)

end
